theory Spec2Isabelle
  imports Complex_Main
begin

section \<open>Spindle / laser power commands M3, M4 and M5\<close>

text \<open>
  A shallow embedding of \<^verbatim>\<open>Marlin/src/gcode/control/M3-M5.cpp\<close>: the two command
  handlers \<^verbatim>\<open>GcodeSuite::M3_M4\<close> ("activate") and \<^verbatim>\<open>GcodeSuite::M5\<close>
  ("deactivate"), and the lambda \<^verbatim>\<open>get_s_power\<close> inside the former.

  The handlers mutate the singleton \<^verbatim>\<open>cutter\<close> and call the planner; the model
  passes one state record through them. The preprocessor switches of the file
  (\<^verbatim>\<open>SPINDLE_SERVO\<close>, \<^verbatim>\<open>SPINDLE_LASER_USE_PWM\<close>, \<^verbatim>\<open>LASER_POWER_SYNC\<close>,
  \<^verbatim>\<open>LASER_FEATURE\<close>, \<^verbatim>\<open>SPINDLE_CHANGE_DIR\<close>) are fields of a configuration
  record, so that every build of the file is an instance of the same definitions.
  The parser is an input: \<^verbatim>\<open>parser.seen('I')\<close> is a boolean argument and the pair
  \<^verbatim>\<open>parser.seen('S')\<close>, \<^verbatim>\<open>parser.value_float()\<close> is an optional number.
  Power quantities are exact numbers (\<^typ>\<open>real\<close>): the rounding of the firmware's
  machine types is not part of this development.
\<close>

subsection \<open>Data model\<close>

text \<open>
  Modelled from the spec: the enumeration behind \<^verbatim>\<open>cutter.cutter_mode\<close> is declared in
  \<^verbatim>\<open>feature/spindle_laser.h\<close>; the three modes are the ones M3-M5.cpp names
  (Standard, ContinuousInline and DynamicInline of the specification).
\<close>

datatype CutterMode = CUTTER_MODE_STANDARD | CUTTER_MODE_CONTINUOUS | CUTTER_MODE_DYNAMIC

text \<open>
  The build configuration. The five switches are the macros M3-M5.cpp tests.
  \<open>SPEED_POWER_STARTUP\<close> and \<open>cpwr_to_upwr\<close> are the constant and the conversion of
  line 95, both declared elsewhere and taken as parameters. \<open>upower_max\<close> is the upper
  bound \<open>MAX\<close> of the unit power range \<open>[0, MAX]\<close> of the specification.
\<close>

record config =
  SPINDLE_SERVO :: bool
  SPINDLE_LASER_USE_PWM :: bool
  LASER_POWER_SYNC :: bool
  LASER_FEATURE :: bool
  SPINDLE_CHANGE_DIR :: bool
  SPEED_POWER_STARTUP :: real
  cpwr_to_upwr :: "real \<Rightarrow> real"
  upower_max :: real

text \<open>
  Modelled from the spec: the blocks of the planner's motion queue are missing. As far
  as power is concerned, a motion block carries the inline power it was produced with;
  a power-sync marker is a zero-motion block that carries the value queued with it
  ("Send the flag, queueing cutter.power", line 104; "a snapshot, not a live
  reference", specification section 3).
\<close>

datatype block = MoveBlock real | SyncBlock real

text \<open>
  Modelled from the spec: the interface of the two collaborators (motion queue and
  hardware output) is missing; these are the operations of section 6 of the
  specification. The state keeps the calls in the order they are made.
\<close>

datatype event =
    Synchronize
  | EnqueueSyncMarker
  | SetNextBlockPower real
  | WriteOutput real
  | SetDirection bool

text \<open>
  The state: the fields of \<^verbatim>\<open>cutter\<close> that M3-M5.cpp reads and writes
  (\<open>cutter_mode\<close>, \<open>unitPower\<close>, \<open>power_ocr\<close> for \<^verbatim>\<open>cutter.power\<close>, \<open>menuPower\<close>),
  the enabled flag and the direction of the specification's tool state, and the two
  collaborators: the physical output, the power the block producer stamps on the next
  motion block, the queue, and the trace of calls.
\<close>

record cutter_state =
  cutter_mode :: CutterMode
  enabled :: bool
  reverse_dir :: bool
  unitPower :: real
  power_ocr :: real
  menuPower :: real
  hw_output :: real
  inline_pwr :: real
  queue :: "block list"
  trace :: "event list"

text \<open>The initial state of the specification: Standard, disabled, all powers 0.\<close>

definition init_state :: cutter_state where
  "init_state =
     \<lparr>cutter_mode = CUTTER_MODE_STANDARD, enabled = False, reverse_dir = False,
      unitPower = 0, power_ocr = 0, menuPower = 0, hw_output = 0, inline_pwr = 0,
      queue = [], trace = []\<rparr>"

subsection \<open>Collaborators declared outside M3-M5.cpp\<close>

text \<open>
  Modelled from the spec: \<^verbatim>\<open>cutter.power_to_range\<close> is missing. The specification says
  the requested value is clamped to the bounds of the valid range \<open>[0, MAX]\<close>.
\<close>

definition power_to_range :: "config \<Rightarrow> real \<Rightarrow> real" where
  "power_to_range cfg pwr = max 0 (min (upower_max cfg) pwr)"

text \<open>
  Modelled from the spec: \<^verbatim>\<open>cutter.upower_to_ocr\<close> is missing. The specification
  (section 4.2, PwmCapable) says: a linear map from the unit power range to the
  duty-cycle range \<open>[0, 255]\<close>.
\<close>

definition upower_to_ocr :: "config \<Rightarrow> real \<Rightarrow> real" where
  "upower_to_ocr cfg upwr = upwr * 255 / upower_max cfg"

text \<open>
  Modelled from the spec: the execution context is missing. It consumes the queue in
  FIFO order; executing a block applies the power the block carries to the output.
\<close>

fun exec_block :: "block \<Rightarrow> cutter_state \<Rightarrow> cutter_state" where
  "exec_block (MoveBlock v) s = s\<lparr>hw_output := v\<rparr>"
| "exec_block (SyncBlock v) s = s\<lparr>hw_output := v\<rparr>"

definition run_blocks :: "block list \<Rightarrow> cutter_state \<Rightarrow> cutter_state" where
  "run_blocks bs s = fold exec_block bs s"

text \<open>
  Modelled from the spec: \<^verbatim>\<open>planner.synchronize\<close> is missing. It returns when all queued
  blocks have executed, so the queue is empty afterwards.
\<close>

definition synchronize :: "cutter_state \<Rightarrow> cutter_state" where
  "synchronize s = (run_blocks (queue s) s)\<lparr>queue := [], trace := trace s @ [Synchronize]\<rparr>"

text \<open>
  Modelled from the spec: \<^verbatim>\<open>planner.buffer_sync_block\<close> is missing. Power-sync strategy:
  a zero-motion marker is appended to the queue; it carries the pending value
  \<^verbatim>\<open>cutter.power\<close>.
\<close>

definition buffer_sync_block :: "cutter_state \<Rightarrow> cutter_state" where
  "buffer_sync_block s =
     s\<lparr>queue := queue s @ [SyncBlock (power_ocr s)], trace := trace s @ [EnqueueSyncMarker]\<rparr>"

text \<open>
  Modelled from the spec: \<^verbatim>\<open>cutter.inline_power\<close> is missing. Per-block strategy: the
  value is handed to the block producer, so that every motion block produced later
  carries it; it is the hardware value last queued.
\<close>

definition inline_power :: "real \<Rightarrow> cutter_state \<Rightarrow> cutter_state" where
  "inline_power v s =
     s\<lparr>power_ocr := v, inline_pwr := v, trace := trace s @ [SetNextBlockPower v]\<rparr>"

text \<open>
  Modelled from the spec: the block producer of the planner is missing. A motion block
  produced now carries the inline power handed over last.
\<close>

definition buffer_move :: "cutter_state \<Rightarrow> cutter_state" where
  "buffer_move s = s\<lparr>queue := queue s @ [MoveBlock (inline_pwr s)]\<rparr>"

text \<open>
  Modelled from the spec: \<^verbatim>\<open>cutter.set_power\<close> is missing. Standard-mode dispatch: the
  hardware value is written to the output immediately.
\<close>

definition set_power :: "real \<Rightarrow> cutter_state \<Rightarrow> cutter_state" where
  "set_power v s = s\<lparr>power_ocr := v, hw_output := v, trace := trace s @ [WriteOutput v]\<rparr>"

text \<open>
  Modelled from the spec: \<^verbatim>\<open>cutter.set_enabled\<close> is missing. It sets or clears the
  enabled flag of the tool state; by the specification this does not itself change the
  hardware output.
\<close>

definition set_enabled :: "bool \<Rightarrow> cutter_state \<Rightarrow> cutter_state" where
  "set_enabled enable s = s\<lparr>enabled := enable\<rparr>"

text \<open>
  Modelled from the spec: \<^verbatim>\<open>cutter.set_reverse\<close> is missing. It applies the direction
  to the hardware.
\<close>

definition set_reverse :: "bool \<Rightarrow> cutter_state \<Rightarrow> cutter_state" where
  "set_reverse rev_dir s = s\<lparr>reverse_dir := rev_dir, trace := trace s @ [SetDirection rev_dir]\<rparr>"

text \<open>
  Modelled from the spec: \<^verbatim>\<open>cutter.apply_power\<close> is missing. By section 4.1 of the
  specification the value goes through the same dispatch as an activation, honouring
  the mode that is active: in an inline mode it is handed to the queue bridge (pending
  slot and marker under the power-sync strategy, next-block power otherwise), in
  standard mode it is written to the output at once.
\<close>

definition apply_power :: "config \<Rightarrow> real \<Rightarrow> cutter_state \<Rightarrow> cutter_state" where
  "apply_power cfg v s =
     (if cutter_mode s = CUTTER_MODE_CONTINUOUS \<or> cutter_mode s = CUTTER_MODE_DYNAMIC then
        (if LASER_POWER_SYNC cfg then buffer_sync_block (s\<lparr>power_ocr := v\<rparr>)
         else inline_power v s)
      else set_power v s)"

subsection \<open>The code of M3-M5.cpp\<close>

text \<open>
  The lambda \<^verbatim>\<open>get_s_power\<close> (lines 82 to 98). It returns \<^verbatim>\<open>cutter.unitPower\<close> and
  the updated state. \<open>sval\<close> is \<open>Some v\<close> when the command has an S parameter of
  value \<open>v\<close>.
\<close>

definition get_s_power :: "config \<Rightarrow> real option \<Rightarrow> cutter_state \<Rightarrow> real \<times> cutter_state" where
  "get_s_power cfg sval s =
     (case sval of
        Some v \<Rightarrow>
          let s1 = s\<lparr>unitPower := power_to_range cfg v\<rparr>;
              s2 = (if SPINDLE_SERVO cfg then
                      s1\<lparr>power_ocr := upower_to_ocr cfg (unitPower s1)\<rparr>
                    else if cutter_mode s1 = CUTTER_MODE_STANDARD then
                      s1\<lparr>power_ocr :=
                            (if SPINDLE_LASER_USE_PWM cfg then upower_to_ocr cfg (unitPower s1)
                             else if unitPower s1 > 0 then 255 else 0)\<rparr>
                    else s1);
              s3 = s2\<lparr>menuPower := unitPower s2\<rparr>
          in (unitPower s3, s3)
      | None \<Rightarrow>
          let s1 = (if cutter_mode s = CUTTER_MODE_STANDARD then
                      s\<lparr>unitPower := cpwr_to_upwr cfg (SPEED_POWER_STARTUP cfg)\<rparr>
                    else s)
          in (unitPower s1, s1))"

text \<open>
  \<^verbatim>\<open>GcodeSuite::M3_M4\<close> (lines 73 to 119). \<open>seen_I\<close> is \<^verbatim>\<open>parser.seen('I')\<close>.
  In an inline mode the value is handed to the queue (lines 100 to 108): under
  \<^verbatim>\<open>LASER_POWER_SYNC\<close> it is stored in \<^verbatim>\<open>cutter.power\<close> and a marker is queued,
  otherwise \<^verbatim>\<open>cutter.inline_power\<close> is called when \<^verbatim>\<open>LASER_FEATURE\<close> is on, and
  nothing at all happens when it is off. In standard mode (lines 109 to 118) the three
  builds are PWM, servo, and plain on/off.
\<close>

definition M3_M4 :: "config \<Rightarrow> bool \<Rightarrow> bool \<Rightarrow> real option \<Rightarrow> cutter_state \<Rightarrow> cutter_state" where
  "M3_M4 cfg is_M4 seen_I sval s =
     (let s1 = (if cutter_mode s = CUTTER_MODE_STANDARD then synchronize s else s);
          s2 = (if seen_I then
                  set_enabled True
                    (s1\<lparr>cutter_mode := (if is_M4 then CUTTER_MODE_DYNAMIC else CUTTER_MODE_CONTINUOUS)\<rparr>)
                else s1)
      in if cutter_mode s2 = CUTTER_MODE_CONTINUOUS \<or> cutter_mode s2 = CUTTER_MODE_DYNAMIC then
           (if LASER_POWER_SYNC cfg then
              (case get_s_power cfg sval s2 of
                 (u, s3) \<Rightarrow> buffer_sync_block (s3\<lparr>power_ocr := upower_to_ocr cfg u\<rparr>))
            else if LASER_FEATURE cfg then
              (case get_s_power cfg sval s2 of
                 (u, s3) \<Rightarrow> inline_power (upower_to_ocr cfg u) s3)
            else s2)
         else
           (let s4 = (if SPINDLE_LASER_USE_PWM cfg then
                        (case get_s_power cfg sval s2 of
                           (u, s3) \<Rightarrow> set_power (upower_to_ocr cfg u) s3)
                      else if SPINDLE_SERVO cfg then
                        (case get_s_power cfg sval s2 of (u, s3) \<Rightarrow> set_power u s3)
                      else set_enabled True s2)
            in if SPINDLE_CHANGE_DIR cfg then set_reverse is_M4 s4 else s4))"

text \<open>
  Lines 126 to 129: the body of \<^verbatim>\<open>if (parser.seen('I'))\<close> in M5, which clears the
  inline mode.
\<close>

definition clear_inline :: "cutter_state \<Rightarrow> cutter_state" where
  "clear_inline s = (set_enabled False s)\<lparr>cutter_mode := CUTTER_MODE_STANDARD\<rparr>"

text \<open>\<^verbatim>\<open>GcodeSuite::M5\<close> (lines 124 to 131).\<close>

definition M5 :: "config \<Rightarrow> bool \<Rightarrow> cutter_state \<Rightarrow> cutter_state" where
  "M5 cfg seen_I s =
     (let s1 = synchronize s;
          s2 = (if seen_I then clear_inline s1 else s1)
      in apply_power cfg 0 s2)"

text \<open>Sequences of commands, run from left to right.\<close>

datatype command = Activate bool bool "real option" | Deactivate bool

fun step :: "config \<Rightarrow> cutter_state \<Rightarrow> command \<Rightarrow> cutter_state" where
  "step cfg s (Activate is_M4 seen_I sval) = M3_M4 cfg is_M4 seen_I sval s"
| "step cfg s (Deactivate seen_I) = M5 cfg seen_I s"

definition run :: "config \<Rightarrow> command list \<Rightarrow> cutter_state \<Rightarrow> cutter_state" where
  "run cfg cmds s = foldl (step cfg) s cmds"

text \<open>Three builds used as concrete inputs: PWM laser with per-block inline power,
  positional servo, and plain on/off spindle. The unit power range is \<open>[0, 100]\<close>,
  \<open>[0, 180]\<close> and \<open>[0, 1]\<close>.\<close>

definition pwm_laser_cfg :: config where
  "pwm_laser_cfg =
     \<lparr>SPINDLE_SERVO = False, SPINDLE_LASER_USE_PWM = True, LASER_POWER_SYNC = False,
      LASER_FEATURE = True, SPINDLE_CHANGE_DIR = False, SPEED_POWER_STARTUP = 80,
      cpwr_to_upwr = (\<lambda>c. c), upower_max = 100\<rparr>"

definition servo_cfg :: config where
  "servo_cfg =
     \<lparr>SPINDLE_SERVO = True, SPINDLE_LASER_USE_PWM = False, LASER_POWER_SYNC = False,
      LASER_FEATURE = False, SPINDLE_CHANGE_DIR = False, SPEED_POWER_STARTUP = 90,
      cpwr_to_upwr = (\<lambda>c. c), upower_max = 180\<rparr>"

definition onoff_cfg :: config where
  "onoff_cfg =
     \<lparr>SPINDLE_SERVO = False, SPINDLE_LASER_USE_PWM = False, LASER_POWER_SYNC = False,
      LASER_FEATURE = False, SPINDLE_CHANGE_DIR = True, SPEED_POWER_STARTUP = 1,
      cpwr_to_upwr = (\<lambda>c. c), upower_max = 1\<rparr>"

definition sync_laser_cfg :: config where
  "sync_laser_cfg = pwm_laser_cfg\<lparr>LASER_POWER_SYNC := True\<rparr>"

text \<open>A servo build that also has the laser feature, so that line 106 is not empty.\<close>

definition servo_laser_cfg :: config where
  "servo_laser_cfg = servo_cfg\<lparr>LASER_FEATURE := True\<rparr>"

subsection \<open>Notions used in the statements\<close>

text \<open>The calls a command made: what it appended to the trace of the state it started from.\<close>

definition emitted :: "cutter_state \<Rightarrow> cutter_state \<Rightarrow> event list" where
  "emitted s s' = drop (length (trace s)) (trace s')"

text \<open>The state after lines 74 and 75 of \<^verbatim>\<open>M3_M4\<close>: the queue has been waited for
  when the mode at entry is standard.\<close>

definition at_entry :: "cutter_state \<Rightarrow> cutter_state" where
  "at_entry s = (if cutter_mode s = CUTTER_MODE_STANDARD then synchronize s else s)"

text \<open>The test of line 100, in terms of the inputs: the mode is an inline mode at
  dispatch when the command has an I parameter or the mode at entry was one.\<close>

definition inline_at_dispatch :: "bool \<Rightarrow> cutter_state \<Rightarrow> bool" where
  "inline_at_dispatch seen_I s =
     (seen_I \<or> cutter_mode s = CUTTER_MODE_CONTINUOUS \<or> cutter_mode s = CUTTER_MODE_DYNAMIC)"

text \<open>The calls of \<^verbatim>\<open>M3_M4\<close> that evaluate \<^verbatim>\<open>get_s_power\<close>: lines 103 and 106 in
  an inline mode, lines 111 and 113 in standard mode.\<close>

definition evaluates_power :: "config \<Rightarrow> bool \<Rightarrow> cutter_state \<Rightarrow> bool" where
  "evaluates_power cfg seen_I s =
     (if inline_at_dispatch seen_I s then LASER_POWER_SYNC cfg \<or> LASER_FEATURE cfg
      else SPINDLE_LASER_USE_PWM cfg \<or> SPINDLE_SERVO cfg)"

text \<open>The calls that reach line 113, where the unit power is passed on as it is.\<close>

definition servo_direct :: "config \<Rightarrow> bool \<Rightarrow> cutter_state \<Rightarrow> bool" where
  "servo_direct cfg seen_I s =
     (\<not> inline_at_dispatch seen_I s \<and> SPINDLE_SERVO cfg \<and> \<not> SPINDLE_LASER_USE_PWM cfg)"

text \<open>The upper bound of the hardware value: the servo position range where the unit
  power is the position, the duty-cycle bound 255 elsewhere.\<close>

definition hw_bound :: "config \<Rightarrow> bool \<Rightarrow> cutter_state \<Rightarrow> real" where
  "hw_bound cfg seen_I s = (if servo_direct cfg seen_I s then upower_max cfg else 255)"

text \<open>The invariant of the tool state: an inline mode implies that the tool is enabled.\<close>

definition mode_enabled_inv :: "cutter_state \<Rightarrow> bool" where
  "mode_enabled_inv s = (cutter_mode s \<noteq> CUTTER_MODE_STANDARD \<longrightarrow> enabled s)"

section \<open>Lemmas about the collaborators and the handlers\<close>

lemmas model_defs =
  M3_M4_def M5_def get_s_power_def clear_inline_def apply_power_def set_enabled_def
  set_power_def set_reverse_def buffer_sync_block_def inline_power_def buffer_move_def
  synchronize_def run_blocks_def power_to_range_def upower_to_ocr_def emitted_def
  at_entry_def inline_at_dispatch_def evaluates_power_def servo_direct_def hw_bound_def
  init_state_def pwm_laser_cfg_def servo_cfg_def onoff_cfg_def sync_laser_cfg_def
  servo_laser_cfg_def
  run_def Let_def

lemma not_standard_iff:
  "(m \<noteq> CUTTER_MODE_STANDARD) = (m = CUTTER_MODE_CONTINUOUS \<or> m = CUTTER_MODE_DYNAMIC)"
  by (cases m) simp_all

lemma run_blocks_frame:
  "cutter_mode (run_blocks bs s) = cutter_mode s \<and> enabled (run_blocks bs s) = enabled s
   \<and> reverse_dir (run_blocks bs s) = reverse_dir s \<and> unitPower (run_blocks bs s) = unitPower s
   \<and> power_ocr (run_blocks bs s) = power_ocr s \<and> menuPower (run_blocks bs s) = menuPower s
   \<and> inline_pwr (run_blocks bs s) = inline_pwr s \<and> queue (run_blocks bs s) = queue s
   \<and> trace (run_blocks bs s) = trace s"
  unfolding run_blocks_def
proof (induction bs arbitrary: s)
  case Nil
  show ?case by simp
next
  case (Cons b bs)
  show ?case using Cons.IH [of "exec_block b s"] by (cases b) simp_all
qed

lemma run_blocks_output:
  "hw_output s = hw_output t \<Longrightarrow> hw_output (run_blocks bs s) = hw_output (run_blocks bs t)"
  unfolding run_blocks_def
proof (induction bs arbitrary: s t)
  case Nil
  then show ?case by simp
next
  case (Cons b bs)
  have "hw_output (exec_block b s) = hw_output (exec_block b t)"
    using Cons.prems by (cases b) simp_all
  then have "hw_output (fold exec_block bs (exec_block b s)) =
      hw_output (fold exec_block bs (exec_block b t))"
    by (rule Cons.IH)
  then show ?case by simp
qed

lemma synchronize_fields [simp]:
  "cutter_mode (synchronize s) = cutter_mode s"
  "enabled (synchronize s) = enabled s"
  "reverse_dir (synchronize s) = reverse_dir s"
  "unitPower (synchronize s) = unitPower s"
  "power_ocr (synchronize s) = power_ocr s"
  "menuPower (synchronize s) = menuPower s"
  "inline_pwr (synchronize s) = inline_pwr s"
  "queue (synchronize s) = []"
  "trace (synchronize s) = trace s @ [Synchronize]"
  by (simp_all add: synchronize_def run_blocks_frame)

lemma get_s_power_frame [simp]:
  "cutter_mode (snd (get_s_power cfg sval s)) = cutter_mode s"
  "enabled (snd (get_s_power cfg sval s)) = enabled s"
  "trace (snd (get_s_power cfg sval s)) = trace s"
  "queue (snd (get_s_power cfg sval s)) = queue s"
  "hw_output (snd (get_s_power cfg sval s)) = hw_output s"
  "inline_pwr (snd (get_s_power cfg sval s)) = inline_pwr s"
  by (simp_all add: get_s_power_def Let_def split: option.splits)

lemma get_s_power_fst: "fst (get_s_power cfg sval s) = unitPower (snd (get_s_power cfg sval s))"
  by (simp add: get_s_power_def Let_def split: option.splits)

text \<open>The calls of an activation, in order.\<close>

lemma M3_M4_emitted:
  "emitted s (M3_M4 cfg is_M4 seen_I sval s) =
     (if cutter_mode s = CUTTER_MODE_STANDARD then [Synchronize] else []) @
     (if seen_I \<or> cutter_mode s \<noteq> CUTTER_MODE_STANDARD then
        (if LASER_POWER_SYNC cfg then [EnqueueSyncMarker]
         else if LASER_FEATURE cfg then
           [SetNextBlockPower (upower_to_ocr cfg (unitPower (M3_M4 cfg is_M4 seen_I sval s)))]
         else [])
      else
        (if SPINDLE_LASER_USE_PWM cfg then
           [WriteOutput (upower_to_ocr cfg (unitPower (M3_M4 cfg is_M4 seen_I sval s)))]
         else if SPINDLE_SERVO cfg then [WriteOutput (unitPower (M3_M4 cfg is_M4 seen_I sval s))]
         else []) @
        (if SPINDLE_CHANGE_DIR cfg then [SetDirection is_M4] else []))"
  by (cases "cutter_mode s")
     (simp_all add: emitted_def M3_M4_def Let_def set_enabled_def set_power_def set_reverse_def
       buffer_sync_block_def inline_power_def split_beta get_s_power_fst)

lemma M3_M4_unitPower_S:
  "unitPower (M3_M4 cfg is_M4 seen_I (Some p) s) =
     (if evaluates_power cfg seen_I s then power_to_range cfg p else unitPower s)"
  by (cases "cutter_mode s")
     (simp_all add: evaluates_power_def inline_at_dispatch_def M3_M4_def get_s_power_def Let_def
       set_enabled_def set_power_def set_reverse_def buffer_sync_block_def inline_power_def)

lemma M3_M4_power_ocr_S:
  "power_ocr (M3_M4 cfg is_M4 seen_I (Some p) s) =
     (if evaluates_power cfg seen_I s then
        (if servo_direct cfg seen_I s then power_to_range cfg p
         else upower_to_ocr cfg (power_to_range cfg p))
      else power_ocr s)"
  by (cases "cutter_mode s")
     (simp_all add: evaluates_power_def servo_direct_def inline_at_dispatch_def M3_M4_def
       get_s_power_def Let_def set_enabled_def set_power_def set_reverse_def
       buffer_sync_block_def inline_power_def)

lemma M3_M4_inline_state:
  assumes "inline_at_dispatch seen_I s"
  shows "hw_output (M3_M4 cfg is_M4 seen_I sval s) = hw_output (at_entry s)
    \<and> trace (M3_M4 cfg is_M4 seen_I sval s) = trace (at_entry s) @
         (if LASER_POWER_SYNC cfg then [EnqueueSyncMarker]
          else if LASER_FEATURE cfg then
            [SetNextBlockPower (upower_to_ocr cfg (unitPower (M3_M4 cfg is_M4 seen_I sval s)))]
          else [])
    \<and> queue (M3_M4 cfg is_M4 seen_I sval s) = queue (at_entry s) @
         (if LASER_POWER_SYNC cfg then
            [SyncBlock (upower_to_ocr cfg (unitPower (M3_M4 cfg is_M4 seen_I sval s)))]
          else [])
    \<and> inline_pwr (M3_M4 cfg is_M4 seen_I sval s) =
         (if \<not> LASER_POWER_SYNC cfg \<and> LASER_FEATURE cfg then
            upower_to_ocr cfg (unitPower (M3_M4 cfg is_M4 seen_I sval s))
          else inline_pwr s)"
  using assms
  by (cases "cutter_mode s")
     (simp_all add: inline_at_dispatch_def at_entry_def M3_M4_def Let_def set_enabled_def
       buffer_sync_block_def inline_power_def split_beta get_s_power_fst)

lemma power_to_range_bounds:
  "0 < upower_max cfg \<Longrightarrow> 0 \<le> power_to_range cfg p \<and> power_to_range cfg p \<le> upower_max cfg"
  by (simp add: power_to_range_def)

lemma upower_to_ocr_bounds:
  "0 < upower_max cfg \<Longrightarrow> 0 \<le> u \<Longrightarrow> u \<le> upower_max cfg \<Longrightarrow>
     0 \<le> upower_to_ocr cfg u \<and> upower_to_ocr cfg u \<le> 255"
  by (simp add: upower_to_ocr_def divide_le_eq)

lemma M3_M4_inv: "mode_enabled_inv s \<Longrightarrow> mode_enabled_inv (M3_M4 cfg is_M4 seen_I sval s)"
  by (simp add: mode_enabled_inv_def M3_M4_def Let_def set_enabled_def set_power_def
      set_reverse_def buffer_sync_block_def inline_power_def split_beta)

lemma M5_inv: "mode_enabled_inv s \<Longrightarrow> mode_enabled_inv (M5 cfg seen_I s)"
  by (simp add: mode_enabled_inv_def M5_def Let_def clear_inline_def apply_power_def
      set_enabled_def set_power_def buffer_sync_block_def inline_power_def)

lemma step_inv: "mode_enabled_inv s \<Longrightarrow> mode_enabled_inv (step cfg s c)"
  by (cases c) (simp_all add: M3_M4_inv M5_inv)

lemma run_inv: "mode_enabled_inv s \<Longrightarrow> mode_enabled_inv (run cfg cmds s)"
  unfolding run_def by (induction cmds arbitrary: s) (simp_all add: step_inv)

section \<open>Deactivation\<close>

text \<open>
  C1. For either value of the I parameter (clearInline), M5 first waits until the
  motion queue has drained: its first call is the synchronisation, after which the
  queue is empty. It then clears the enabled flag and resets the mode to standard
  exactly when I is given (otherwise both keep their values); this reset changes neither
  the hardware value nor the output and makes no call. Last, it forces the hardware
  value to 0 in every case, through the dispatch that depends on the mode that is then
  active: written to the output at once in standard mode, handed to the queue (sync
  marker or next-block power) when the mode is still an inline mode, where the output
  is left as the drained queue set it.
\<close>

theorem M5_synchronizes_clears_then_zeroes:
  "emitted s (M5 cfg seen_I s) =
     [Synchronize,
      (if \<not> seen_I \<and> cutter_mode s \<noteq> CUTTER_MODE_STANDARD then
         (if LASER_POWER_SYNC cfg then EnqueueSyncMarker else SetNextBlockPower 0)
       else WriteOutput 0)]
   \<and> queue (synchronize s) = []
   \<and> enabled (M5 cfg seen_I s) = (enabled s \<and> \<not> seen_I)
   \<and> cutter_mode (M5 cfg seen_I s) = (if seen_I then CUTTER_MODE_STANDARD else cutter_mode s)
   \<and> power_ocr (clear_inline s1) = power_ocr s1
   \<and> hw_output (clear_inline s1) = hw_output s1
   \<and> trace (clear_inline s1) = trace s1
   \<and> power_ocr (M5 cfg seen_I s) = 0
   \<and> hw_output (M5 cfg seen_I s) =
       (if \<not> seen_I \<and> cutter_mode s \<noteq> CUTTER_MODE_STANDARD then hw_output (synchronize s)
        else 0)"
  by (cases "cutter_mode s")
     (simp_all add: emitted_def M5_def Let_def clear_inline_def apply_power_def set_enabled_def
       set_power_def buffer_sync_block_def inline_power_def)

theorem M5_synchronizes_clears_then_zeroes_witness:
  "emitted (M3_M4 pwm_laser_cfg False True (Some 50) init_state)
     (M5 pwm_laser_cfg True (M3_M4 pwm_laser_cfg False True (Some 50) init_state))
     = [Synchronize, WriteOutput 0]
   \<and> emitted (M3_M4 pwm_laser_cfg False True (Some 50) init_state)
       (M5 pwm_laser_cfg False (M3_M4 pwm_laser_cfg False True (Some 50) init_state))
     = [Synchronize, SetNextBlockPower 0]
   \<and> cutter_mode (M5 pwm_laser_cfg True (M3_M4 pwm_laser_cfg False True (Some 50) init_state))
     = CUTTER_MODE_STANDARD
   \<and> \<not> enabled (M5 pwm_laser_cfg True (M3_M4 pwm_laser_cfg False True (Some 50) init_state))
   \<and> power_ocr (M5 pwm_laser_cfg True (M3_M4 pwm_laser_cfg False True (Some 50) init_state)) = 0"
  using M5_synchronizes_clears_then_zeroes
    [of "M3_M4 pwm_laser_cfg False True (Some 50) init_state" pwm_laser_cfg True]
    M5_synchronizes_clears_then_zeroes
    [of "M3_M4 pwm_laser_cfg False True (Some 50) init_state" pwm_laser_cfg False]
  by (simp add: model_defs)

section \<open>Synchronisation before immediate writes\<close>

text \<open>
  C2. In M3_M4 the blocking call that waits for the queue is made exactly when the
  mode at entry is standard, and every immediate hardware write of the call (the output
  value, the direction) comes after it: whenever the call writes to the hardware, its
  first call is the synchronisation and the write is among the calls that follow.
\<close>

theorem M3_M4_synchronize_before_write:
  "(Synchronize \<in> set (emitted s (M3_M4 cfg is_M4 seen_I sval s))
      \<longleftrightarrow> cutter_mode s = CUTTER_MODE_STANDARD)
   \<and> (\<forall>e. e \<in> set (emitted s (M3_M4 cfg is_M4 seen_I sval s))
          \<and> ((\<exists>v. e = WriteOutput v) \<or> (\<exists>b. e = SetDirection b)) \<longrightarrow>
        (\<exists>rest. emitted s (M3_M4 cfg is_M4 seen_I sval s) = Synchronize # rest
                \<and> e \<in> set rest))"
  by (auto simp add: M3_M4_emitted)

theorem M3_M4_synchronize_before_write_witness:
  "WriteOutput (255 / 2)
     \<in> set (emitted init_state (M3_M4 pwm_laser_cfg False False (Some 50) init_state))
   \<and> (\<exists>rest. emitted init_state (M3_M4 pwm_laser_cfg False False (Some 50) init_state)
               = Synchronize # rest
         \<and> WriteOutput (255 / 2) \<in> set rest)"
  using M3_M4_synchronize_before_write [of init_state pwm_laser_cfg False False "Some 50"]
  by (simp add: model_defs)

section \<open>Mode transitions\<close>

text \<open>
  C3. For every starting state and every build, an activation that requests inline
  mode leaves the mode ContinuousInline for M3 (forward) and DynamicInline for M4
  (reverse), with the tool enabled; a deactivation that clears inline mode leaves the
  mode Standard, whatever the mode was.
\<close>

theorem activate_inline_deactivate_clear_mode:
  "cutter_mode (M3_M4 cfg False True sval s) = CUTTER_MODE_CONTINUOUS
   \<and> cutter_mode (M3_M4 cfg True True sval s) = CUTTER_MODE_DYNAMIC
   \<and> enabled (M3_M4 cfg is_M4 True sval s)
   \<and> cutter_mode (M5 cfg True s) = CUTTER_MODE_STANDARD"
  by (simp add: M3_M4_def M5_def Let_def clear_inline_def apply_power_def set_enabled_def
      set_power_def buffer_sync_block_def inline_power_def split_beta)

text \<open>
  C4. In every state reached from the initial state by any sequence of M3, M4 and M5
  commands, in every build, a mode other than standard implies that the tool is enabled.
\<close>

theorem inline_mode_implies_enabled_reachable:
  "mode_enabled_inv (run cfg cmds init_state)"
  by (rule run_inv) (simp add: mode_enabled_inv_def init_state_def)

theorem inline_mode_implies_enabled_reachable_witness:
  "cutter_mode (run pwm_laser_cfg [Activate True True (Some 50), Deactivate False] init_state)
     = CUTTER_MODE_DYNAMIC
   \<and> enabled (run pwm_laser_cfg [Activate True True (Some 50), Deactivate False] init_state)"
  using inline_mode_implies_enabled_reachable
    [of pwm_laser_cfg "[Activate True True (Some 50), Deactivate False]"]
  by (simp add: model_defs mode_enabled_inv_def)

section \<open>Resolution of the unit power\<close>

text \<open>
  C5, as stated, fails: an activation does not always resolve the power. In the plain
  on/off build an M3 S1 in standard mode only enables the tool, so the unit power stays
  0 although the clamped request is 1.
\<close>

theorem onoff_activate_keeps_unitPower:
  "unitPower (M3_M4 onoff_cfg False False (Some 1) init_state) \<noteq> power_to_range onoff_cfg 1"
  by (simp add: model_defs)

text \<open>
  C5, amended. Whenever \<^verbatim>\<open>get_s_power\<close> runs, it resolves the unit power as the
  claim says: an S value is clamped, stored in the unit power and mirrored in the menu
  power; without one, the unit power becomes the configured startup power in standard
  mode and is left unchanged in an inline mode. An activation runs it when the mode at
  dispatch is an inline mode and the build has power sync or the laser feature, or when
  that mode is standard and the build has PWM or a servo; the mode that counts is the one
  after the I parameter has been applied. Every other activation leaves the unit power
  and the menu power unchanged.
\<close>

theorem get_s_power_resolution:
  "unitPower (snd (get_s_power cfg (Some v) s)) = power_to_range cfg v
   \<and> menuPower (snd (get_s_power cfg (Some v) s)) = power_to_range cfg v
   \<and> unitPower (snd (get_s_power cfg None s)) =
       (if cutter_mode s = CUTTER_MODE_STANDARD then cpwr_to_upwr cfg (SPEED_POWER_STARTUP cfg)
        else unitPower s)
   \<and> menuPower (snd (get_s_power cfg None s)) = menuPower s
   \<and> unitPower (M3_M4 cfg is_M4 seen_I sval s) =
       (if evaluates_power cfg seen_I s then
          (case sval of
             Some v \<Rightarrow> power_to_range cfg v
           | None \<Rightarrow> if inline_at_dispatch seen_I s then unitPower s
                     else cpwr_to_upwr cfg (SPEED_POWER_STARTUP cfg))
        else unitPower s)
   \<and> menuPower (M3_M4 cfg is_M4 seen_I sval s) =
       (if evaluates_power cfg seen_I s then
          (case sval of Some v \<Rightarrow> power_to_range cfg v | None \<Rightarrow> menuPower s)
        else menuPower s)"
  by (cases "cutter_mode s"; cases sval)
     (simp_all add: evaluates_power_def inline_at_dispatch_def M3_M4_def get_s_power_def Let_def
       set_enabled_def set_power_def set_reverse_def buffer_sync_block_def inline_power_def)

theorem get_s_power_resolution_witness:
  "evaluates_power pwm_laser_cfg False init_state
   \<and> unitPower (M3_M4 pwm_laser_cfg False False (Some 500) init_state) = 100
   \<and> menuPower (M3_M4 pwm_laser_cfg False False (Some 500) init_state) = 100
   \<and> \<not> evaluates_power onoff_cfg False init_state
   \<and> unitPower (M3_M4 onoff_cfg False False (Some 1) init_state) = 0"
  using get_s_power_resolution [of pwm_laser_cfg 500 init_state False False "Some 500"]
    get_s_power_resolution [of onoff_cfg 1 init_state False False "Some 1"]
  by (simp add: model_defs)

section \<open>The plain on/off build\<close>



section \<open>The servo build\<close>

text \<open>
  C7, as stated, fails: a servo build does not always skip the conversion. With the
  laser feature on, M3 I S90 stores the unit power 90 and hands its conversion 255/2 to
  the queue (line 106), and the hardware value is 255/2.
\<close>

theorem servo_inline_converts:
  "SPINDLE_SERVO servo_laser_cfg
   \<and> unitPower (M3_M4 servo_laser_cfg False True (Some 90) init_state) = 90
   \<and> emitted init_state (M3_M4 servo_laser_cfg False True (Some 90) init_state)
       = [Synchronize, SetNextBlockPower (255 / 2)]
   \<and> power_ocr (M3_M4 servo_laser_cfg False True (Some 90) init_state) = 255 / 2"
  by (simp add: model_defs)

text \<open>
  C7, amended. In a servo build an activation skips the conversion only at the
  standard-mode dispatch of a build without PWM (line 113): there the unit power itself
  is written to the output and is the hardware value afterwards. With PWM configured as
  well, the conversion of the unit power is written (line 111). In an inline mode
  nothing is written to the output, and what is handed to the queue is the conversion
  of the unit power (lines 103 and 106). And whenever an S value is given,
  \<^verbatim>\<open>get_s_power\<close> itself stores the conversion of the clamped value in
  \<^verbatim>\<open>cutter.power\<close> (line 87).
\<close>

theorem servo_dispatch_value:
  assumes "SPINDLE_SERVO cfg"
  shows "(\<not> inline_at_dispatch seen_I s \<longrightarrow>
          emitted s (M3_M4 cfg is_M4 seen_I sval s) =
            Synchronize #
            WriteOutput (if SPINDLE_LASER_USE_PWM cfg
                         then upower_to_ocr cfg (unitPower (M3_M4 cfg is_M4 seen_I sval s))
                         else unitPower (M3_M4 cfg is_M4 seen_I sval s)) #
            (if SPINDLE_CHANGE_DIR cfg then [SetDirection is_M4] else [])
          \<and> power_ocr (M3_M4 cfg is_M4 seen_I sval s) =
              (if SPINDLE_LASER_USE_PWM cfg
               then upower_to_ocr cfg (unitPower (M3_M4 cfg is_M4 seen_I sval s))
               else unitPower (M3_M4 cfg is_M4 seen_I sval s))
          \<and> hw_output (M3_M4 cfg is_M4 seen_I sval s) =
              (if SPINDLE_LASER_USE_PWM cfg
               then upower_to_ocr cfg (unitPower (M3_M4 cfg is_M4 seen_I sval s))
               else unitPower (M3_M4 cfg is_M4 seen_I sval s)))
    \<and> (inline_at_dispatch seen_I s \<longrightarrow>
          (\<forall>v. WriteOutput v \<notin> set (emitted s (M3_M4 cfg is_M4 seen_I sval s)))
          \<and> emitted (at_entry s) (M3_M4 cfg is_M4 seen_I sval s) =
              (if LASER_POWER_SYNC cfg then [EnqueueSyncMarker]
               else if LASER_FEATURE cfg then
                 [SetNextBlockPower
                    (upower_to_ocr cfg (unitPower (M3_M4 cfg is_M4 seen_I sval s)))]
               else [])
          \<and> queue (M3_M4 cfg is_M4 seen_I sval s) = queue (at_entry s) @
              (if LASER_POWER_SYNC cfg then
                 [SyncBlock (upower_to_ocr cfg (unitPower (M3_M4 cfg is_M4 seen_I sval s)))]
               else []))
    \<and> power_ocr (snd (get_s_power cfg (Some v) s)) = upower_to_ocr cfg (power_to_range cfg v)"
proof -
  have std: "\<not> inline_at_dispatch seen_I s \<Longrightarrow>
      power_ocr (M3_M4 cfg is_M4 seen_I sval s) =
        (if SPINDLE_LASER_USE_PWM cfg
         then upower_to_ocr cfg (unitPower (M3_M4 cfg is_M4 seen_I sval s))
         else unitPower (M3_M4 cfg is_M4 seen_I sval s))
      \<and> hw_output (M3_M4 cfg is_M4 seen_I sval s) =
        (if SPINDLE_LASER_USE_PWM cfg
         then upower_to_ocr cfg (unitPower (M3_M4 cfg is_M4 seen_I sval s))
         else unitPower (M3_M4 cfg is_M4 seen_I sval s))"
    using assms
    by (cases "cutter_mode s")
       (simp_all add: inline_at_dispatch_def M3_M4_def Let_def set_power_def set_reverse_def
         split_beta get_s_power_fst)
  have ev: "\<not> inline_at_dispatch seen_I s \<Longrightarrow>
      emitted s (M3_M4 cfg is_M4 seen_I sval s) =
        Synchronize #
        WriteOutput (if SPINDLE_LASER_USE_PWM cfg
                     then upower_to_ocr cfg (unitPower (M3_M4 cfg is_M4 seen_I sval s))
                     else unitPower (M3_M4 cfg is_M4 seen_I sval s)) #
        (if SPINDLE_CHANGE_DIR cfg then [SetDirection is_M4] else [])"
    using assms by (simp add: M3_M4_emitted inline_at_dispatch_def not_standard_iff)
  have nw: "inline_at_dispatch seen_I s \<Longrightarrow>
      \<forall>v. WriteOutput v \<notin> set (emitted s (M3_M4 cfg is_M4 seen_I sval s))"
    by (auto simp add: M3_M4_emitted inline_at_dispatch_def not_standard_iff)
  have inl: "inline_at_dispatch seen_I s \<Longrightarrow>
      emitted (at_entry s) (M3_M4 cfg is_M4 seen_I sval s) =
        (if LASER_POWER_SYNC cfg then [EnqueueSyncMarker]
         else if LASER_FEATURE cfg then
           [SetNextBlockPower (upower_to_ocr cfg (unitPower (M3_M4 cfg is_M4 seen_I sval s)))]
         else [])
      \<and> queue (M3_M4 cfg is_M4 seen_I sval s) = queue (at_entry s) @
        (if LASER_POWER_SYNC cfg then
           [SyncBlock (upower_to_ocr cfg (unitPower (M3_M4 cfg is_M4 seen_I sval s)))]
         else [])"
    using M3_M4_inline_state [of seen_I s cfg is_M4 sval] by (simp add: emitted_def)
  have gs: "power_ocr (snd (get_s_power cfg (Some v) s)) = upower_to_ocr cfg (power_to_range cfg v)"
    using assms by (simp add: get_s_power_def Let_def)
  show ?thesis
    using std ev nw inl gs by blast
qed

theorem servo_dispatch_value_witness:
  "SPINDLE_SERVO servo_cfg \<and> SPINDLE_SERVO servo_laser_cfg
   \<and> \<not> inline_at_dispatch False init_state \<and> inline_at_dispatch True init_state
   \<and> emitted init_state (M3_M4 servo_cfg False False (Some 90) init_state)
       = [Synchronize, WriteOutput 90]
   \<and> unitPower (M3_M4 servo_cfg False False (Some 90) init_state) = 90
   \<and> hw_output (M3_M4 servo_cfg False False (Some 90) init_state) = 90
   \<and> power_ocr (M3_M4 servo_cfg False False (Some 90) init_state) = 90
   \<and> emitted (at_entry init_state) (M3_M4 servo_laser_cfg False True (Some 90) init_state)
       = [SetNextBlockPower (255 / 2)]
   \<and> power_ocr (snd (get_s_power servo_cfg (Some 90) init_state)) = 255 / 2"
  using servo_dispatch_value [of servo_cfg False init_state False "Some 90" 90]
    servo_dispatch_value [of servo_laser_cfg True init_state False "Some 90" 90]
  by (simp add: model_defs)

section \<open>Out-of-range requests\<close>

text \<open>
  C8. The handlers have no error exit: \<^verbatim>\<open>M3_M4\<close> returns a state for every input. For
  every requested power, in or out of range, and every build with a non-empty unit
  range: the request is either not evaluated at all (the unit power and the hardware
  value keep their values) or clamped into the unit range before anything else is done
  with it; the hardware value is then the conversion of the clamped value (the clamped
  value itself on the servo path) and lies within the hardware range, and so does every
  value the call writes to the output or hands to the queue.
\<close>

theorem requested_power_clamped_in_range:
  assumes "0 < upower_max cfg"
  shows "unitPower (M3_M4 cfg is_M4 seen_I (Some p) s) =
       (if evaluates_power cfg seen_I s then power_to_range cfg p else unitPower s)
    \<and> 0 \<le> power_to_range cfg p \<and> power_to_range cfg p \<le> upower_max cfg
    \<and> power_ocr (M3_M4 cfg is_M4 seen_I (Some p) s) =
       (if evaluates_power cfg seen_I s then
          (if servo_direct cfg seen_I s then power_to_range cfg p
           else upower_to_ocr cfg (power_to_range cfg p))
        else power_ocr s)
    \<and> (evaluates_power cfg seen_I s \<longrightarrow>
          0 \<le> power_ocr (M3_M4 cfg is_M4 seen_I (Some p) s)
          \<and> power_ocr (M3_M4 cfg is_M4 seen_I (Some p) s) \<le> hw_bound cfg seen_I s)
    \<and> (\<forall>v. WriteOutput v \<in> set (emitted s (M3_M4 cfg is_M4 seen_I (Some p) s))
            \<or> SetNextBlockPower v \<in> set (emitted s (M3_M4 cfg is_M4 seen_I (Some p) s))
          \<longrightarrow> 0 \<le> v \<and> v \<le> hw_bound cfg seen_I s)"
proof -
  let ?c = "power_to_range cfg p"
  have c: "0 \<le> ?c \<and> ?c \<le> upower_max cfg"
    using assms by (rule power_to_range_bounds)
  have o: "0 \<le> upower_to_ocr cfg ?c \<and> upower_to_ocr cfg ?c \<le> 255"
    using assms c by (simp add: upower_to_ocr_bounds)
  have ev: "\<forall>v. WriteOutput v \<in> set (emitted s (M3_M4 cfg is_M4 seen_I (Some p) s))
            \<or> SetNextBlockPower v \<in> set (emitted s (M3_M4 cfg is_M4 seen_I (Some p) s))
          \<longrightarrow> 0 \<le> v \<and> v \<le> hw_bound cfg seen_I s"
    using c o
    by (auto simp add: M3_M4_emitted M3_M4_unitPower_S evaluates_power_def hw_bound_def
        servo_direct_def inline_at_dispatch_def not_standard_iff split: if_splits)
  have pw: "evaluates_power cfg seen_I s \<longrightarrow>
          0 \<le> power_ocr (M3_M4 cfg is_M4 seen_I (Some p) s)
          \<and> power_ocr (M3_M4 cfg is_M4 seen_I (Some p) s) \<le> hw_bound cfg seen_I s"
    using c o by (simp add: M3_M4_power_ocr_S hw_bound_def)
  show ?thesis
    using c ev pw M3_M4_unitPower_S [of cfg is_M4 seen_I p s]
      M3_M4_power_ocr_S [of cfg is_M4 seen_I p s]
    by blast
qed

theorem requested_power_clamped_in_range_witness:
  "(0::real) < upower_max pwm_laser_cfg
   \<and> evaluates_power pwm_laser_cfg False init_state
   \<and> unitPower (M3_M4 pwm_laser_cfg False False (Some 500) init_state) = 100
   \<and> power_ocr (M3_M4 pwm_laser_cfg False False (Some 500) init_state) = 255
   \<and> WriteOutput 255
       \<in> set (emitted init_state (M3_M4 pwm_laser_cfg False False (Some 500) init_state))
   \<and> unitPower (M3_M4 pwm_laser_cfg False False (Some (- 5)) init_state) = 0
   \<and> power_ocr (M3_M4 pwm_laser_cfg False False (Some (- 5)) init_state) = 0
   \<and> hw_bound pwm_laser_cfg False init_state = 255"
  using requested_power_clamped_in_range [of pwm_laser_cfg False False 500 init_state]
    requested_power_clamped_in_range [of pwm_laser_cfg False False "- 5" init_state]
  by (simp add: model_defs)

section \<open>Inline hand-off\<close>

text \<open>
  C9, as stated, fails: in a build with neither power sync nor the laser feature, an
  activation in an inline mode hands nothing to the queue. Here M3 I S1 in the on/off
  build only waits for the queue; the next-block power and the queue are untouched.
\<close>

theorem no_laser_inline_no_handoff:
  "emitted init_state (M3_M4 onoff_cfg False True (Some 1) init_state) = [Synchronize]
   \<and> inline_pwr (M3_M4 onoff_cfg False True (Some 1) init_state) = inline_pwr init_state
   \<and> queue (M3_M4 onoff_cfg False True (Some 1) init_state) = []"
  by (simp add: model_defs)

text \<open>
  C9, amended. Whenever the mode is an inline mode at dispatch, an activation never
  writes the output. With power sync it queues one sync marker that carries the
  converted value; otherwise, with the laser feature, it hands the converted value to
  the block producer, so that the next motion block produced carries it; with neither
  it dispatches nothing. In all three cases the output is the one the call found after
  its wait, the blocks that were in the queue are still there, unchanged and in front
  of anything the call added, and executing them gives the output it would have given
  without the call: the value takes effect no earlier than a block queued by or after
  the call.
\<close>

theorem inline_handoff_contract:
  assumes "inline_at_dispatch seen_I s"
  shows "emitted (at_entry s) (M3_M4 cfg is_M4 seen_I sval s) =
         (if LASER_POWER_SYNC cfg then [EnqueueSyncMarker]
          else if LASER_FEATURE cfg then
            [SetNextBlockPower (upower_to_ocr cfg (unitPower (M3_M4 cfg is_M4 seen_I sval s)))]
          else [])
    \<and> hw_output (M3_M4 cfg is_M4 seen_I sval s) = hw_output (at_entry s)
    \<and> queue (M3_M4 cfg is_M4 seen_I sval s) = queue (at_entry s) @
         (if LASER_POWER_SYNC cfg then
            [SyncBlock (upower_to_ocr cfg (unitPower (M3_M4 cfg is_M4 seen_I sval s)))]
          else [])
    \<and> queue (buffer_move (M3_M4 cfg is_M4 seen_I sval s)) =
         queue (M3_M4 cfg is_M4 seen_I sval s) @
         [MoveBlock (if \<not> LASER_POWER_SYNC cfg \<and> LASER_FEATURE cfg then
                       upower_to_ocr cfg (unitPower (M3_M4 cfg is_M4 seen_I sval s))
                     else inline_pwr s)]
    \<and> hw_output (run_blocks (queue (at_entry s)) (M3_M4 cfg is_M4 seen_I sval s)) =
        hw_output (run_blocks (queue (at_entry s)) (at_entry s))"
proof -
  note st = M3_M4_inline_state [OF assms, of cfg is_M4 sval]
  have "hw_output (run_blocks (queue (at_entry s)) (M3_M4 cfg is_M4 seen_I sval s)) =
        hw_output (run_blocks (queue (at_entry s)) (at_entry s))"
    using st by (intro run_blocks_output) simp
  then show ?thesis
    using st by (simp add: emitted_def buffer_move_def)
qed

theorem inline_handoff_contract_witness:
  "inline_at_dispatch True init_state
   \<and> emitted (at_entry init_state) (M3_M4 sync_laser_cfg False True (Some 50) init_state)
       = [EnqueueSyncMarker]
   \<and> queue (M3_M4 sync_laser_cfg False True (Some 50) init_state) = [SyncBlock (255 / 2)]
   \<and> hw_output (M3_M4 sync_laser_cfg False True (Some 50) init_state) = 0
   \<and> queue (buffer_move (M3_M4 pwm_laser_cfg False True (Some 50) init_state))
       = [MoveBlock (255 / 2)]"
  using inline_handoff_contract [of True init_state sync_laser_cfg False "Some 50"]
    inline_handoff_contract [of True init_state pwm_laser_cfg False "Some 50"]
  by (simp add: model_defs)

section \<open>Frame of a deactivation that keeps the inline mode\<close>

text \<open>
  C10. For every starting state, M5 without the I parameter changes none of the mode,
  the enabled flag, the unit power, the menu power (which is not reset to 0) and the
  direction; of the tool state it changes the hardware value only, which becomes 0.
\<close>

theorem M5_keep_inline_frame:
  "cutter_mode (M5 cfg False s) = cutter_mode s
   \<and> enabled (M5 cfg False s) = enabled s
   \<and> unitPower (M5 cfg False s) = unitPower s
   \<and> menuPower (M5 cfg False s) = menuPower s
   \<and> reverse_dir (M5 cfg False s) = reverse_dir s
   \<and> power_ocr (M5 cfg False s) = 0"
  by (simp add: M5_def Let_def apply_power_def set_power_def buffer_sync_block_def
      inline_power_def)

theorem M5_keep_inline_frame_witness:
  "menuPower (M5 pwm_laser_cfg False (M3_M4 pwm_laser_cfg False False (Some 50) init_state)) = 50
   \<and> unitPower (M5 pwm_laser_cfg False (M3_M4 pwm_laser_cfg False False (Some 50) init_state)) = 50
   \<and> power_ocr (M5 pwm_laser_cfg False (M3_M4 pwm_laser_cfg False False (Some 50) init_state)) = 0"
  using M5_keep_inline_frame [of pwm_laser_cfg "M3_M4 pwm_laser_cfg False False (Some 50) init_state"]
  by (simp add: model_defs)

end
